theory Spec2Isabelle
  imports Main "HOL-Library.AList"
begin

section \<open>JavaScript values and arrays\<close>

text \<open>
  A function of the source that returns an object, \<^verbatim>\<open>null\<close>, or the \<^verbatim>\<open>undefined\<close> of an
  out-of-range array read returns a \<open>js_result\<close>. Objects are always truthy; \<^verbatim>\<open>null\<close> and
  \<^verbatim>\<open>undefined\<close> are falsy.
\<close>

datatype 'a js_result = Undefined | Null | Obj 'a

fun truthy :: "'a js_result \<Rightarrow> bool" where
  "truthy (Obj _) = True"
| "truthy _ = False"

text \<open>\<^verbatim>\<open>xs[i]\<close>: an index outside the array reads \<^verbatim>\<open>undefined\<close>.\<close>

definition js_index :: "'a list \<Rightarrow> int \<Rightarrow> 'a js_result" where
  "js_index xs i = (if 0 \<le> i \<and> i < int (length xs) then Obj (xs ! nat i) else Undefined)"

text \<open>
  \<^verbatim>\<open>xs.slice(0, end)\<close>: a negative \<^verbatim>\<open>end\<close> counts from the end of the array and is clamped
  at 0, a non-negative one is clamped at the length.
\<close>

definition js_slice0 :: "'a list \<Rightarrow> int \<Rightarrow> 'a list" where
  "js_slice0 xs stop =
     (let n = int (length xs);
          k = (if stop < 0 then max (n + stop) 0 else min stop n)
      in take (nat k) xs)"

text \<open>\<^verbatim>\<open>xs.shift()\<close> removes the first element; on an empty array it does nothing.\<close>

definition js_shift :: "'a list \<Rightarrow> 'a list" where
  "js_shift xs = (case xs of [] \<Rightarrow> [] | _ # rest \<Rightarrow> rest)"

section \<open>DrawingState: the operation history of one room\<close>

text \<open>
  The object handed to \<^verbatim>\<open>addOperation\<close> by the server (\<^verbatim>\<open>type\<close>, \<^verbatim>\<open>data\<close>, \<^verbatim>\<open>userId\<close>,
  \<^verbatim>\<open>userName\<close>, \<^verbatim>\<open>userColor\<close>), and the stored operation: the same fields followed by
  \<^verbatim>\<open>id\<close> and \<^verbatim>\<open>timestamp\<close>. The payload type \<open>'d\<close> is left open.
\<close>

record 'd draft =
  op_type :: string
  op_data :: 'd
  userId :: string
  userName :: string
  userColor :: string

record 'd operation = "'d draft" +
  op_id :: string
  timestamp :: nat

text \<open>
  \<^verbatim>\<open>{...operation, id: this.generateOperationId(), timestamp: Date.now()}\<close>. The generated
  id (clock and \<^verbatim>\<open>Math.random\<close>) and the clock reading are inputs of the model.
\<close>

definition stamp :: "'d draft \<Rightarrow> string \<Rightarrow> nat \<Rightarrow> 'd operation" where
  "stamp d opid now = draft.extend d \<lparr>op_id = opid, timestamp = now\<rparr>"

record 'd DrawingState =
  operations :: "'d operation list"
  maxHistorySize :: int
  currentIndex :: int

text \<open>The constructor.\<close>

definition new_DrawingState :: "'d DrawingState" where
  "new_DrawingState = \<lparr>operations = [], maxHistorySize = 1000, currentIndex = - 1\<rparr>"

declare new_DrawingState_def [code_unfold]

text \<open>
  \<^verbatim>\<open>addOperation\<close>, statement by statement: truncate what lies after the cursor, push the
  stamped operation, advance the cursor, drop the oldest entry when the history is too
  long, and return \<^verbatim>\<open>this.operations[this.currentIndex]\<close>.
\<close>

definition addOperation ::
  "'d draft \<Rightarrow> string \<Rightarrow> nat \<Rightarrow> 'd DrawingState \<Rightarrow> 'd operation js_result \<times> 'd DrawingState" where
  "addOperation d opid now s =
     (let s1 = (if currentIndex s < int (length (operations s)) - 1
                then s\<lparr>operations := js_slice0 (operations s) (currentIndex s + 1)\<rparr>
                else s);
          s2 = s1\<lparr>operations := operations s1 @ [stamp d opid now]\<rparr>;
          s3 = s2\<lparr>currentIndex := currentIndex s2 + 1\<rparr>;
          s4 = (if int (length (operations s3)) > maxHistorySize s3
                then s3\<lparr>operations := js_shift (operations s3),
                        currentIndex := currentIndex s3 - 1\<rparr>
                else s3)
      in (js_index (operations s4) (currentIndex s4), s4))"

definition undo :: "'d DrawingState \<Rightarrow> 'd operation js_result \<times> 'd DrawingState" where
  "undo s =
     (if currentIndex s \<ge> 0
      then (js_index (operations s) (currentIndex s), s\<lparr>currentIndex := currentIndex s - 1\<rparr>)
      else (Null, s))"

definition redo :: "'d DrawingState \<Rightarrow> 'd operation js_result \<times> 'd DrawingState" where
  "redo s =
     (if currentIndex s < int (length (operations s)) - 1
      then (let s1 = s\<lparr>currentIndex := currentIndex s + 1\<rparr>
            in (js_index (operations s1) (currentIndex s1), s1))
      else (Null, s))"

definition getActiveOperations :: "'d DrawingState \<Rightarrow> 'd operation list" where
  "getActiveOperations s = js_slice0 (operations s) (currentIndex s + 1)"

text \<open>\<^verbatim>\<open>getState\<close> returns the pair \<^verbatim>\<open>{operations, currentIndex}\<close>.\<close>

definition getState :: "'d DrawingState \<Rightarrow> 'd operation list \<times> int" where
  "getState s = (getActiveOperations s, currentIndex s)"

definition clear :: "'d DrawingState \<Rightarrow> 'd DrawingState" where
  "clear s = s\<lparr>operations := [], currentIndex := - 1\<rparr>"

subsection \<open>Sequences of calls\<close>

text \<open>
  A reachable state is what a finite sequence of method calls makes of a freshly
  constructed object.
\<close>

datatype 'd call = AddOperation "'d draft" string nat | Undo | Redo | Clear

fun apply_call :: "'d call \<Rightarrow> 'd DrawingState \<Rightarrow> 'd DrawingState" where
  "apply_call (AddOperation d opid now) s = snd (addOperation d opid now s)"
| "apply_call Undo s = snd (undo s)"
| "apply_call Redo s = snd (redo s)"
| "apply_call Clear s = clear s"

definition run_calls :: "'d call list \<Rightarrow> 'd DrawingState \<Rightarrow> 'd DrawingState" where
  "run_calls cs s = foldl (\<lambda>s c. apply_call c s) s cs"

text \<open>The cursor invariant and the capacity bound of the data model.\<close>

definition cursor_in_range :: "'d DrawingState \<Rightarrow> bool" where
  "cursor_in_range s \<longleftrightarrow>
     - 1 \<le> currentIndex s \<and> currentIndex s \<le> int (length (operations s)) - 1"

definition within_capacity :: "'d DrawingState \<Rightarrow> bool" where
  "within_capacity s \<longleftrightarrow>
     maxHistorySize s = 1000 \<and> int (length (operations s)) \<le> maxHistorySize s"

section \<open>The client's copy of the history\<close>

text \<open>
  The fields \<^verbatim>\<open>operationHistory\<close> and \<^verbatim>\<open>currentIndex\<close> of the client's \<^verbatim>\<open>app\<close> object and
  the handlers that change them. A received \<^verbatim>\<open>stroke-complete\<close> carries whatever the
  server's \<^verbatim>\<open>addOperation\<close> returned, so the history holds \<open>js_result\<close>s. Drawing on the
  canvas is not modelled.
\<close>

record 'd app =
  operationHistory :: "'d operation js_result list"
  app_currentIndex :: int

definition initial_app :: "'d app" where
  "initial_app = \<lparr>operationHistory = [], app_currentIndex = - 1\<rparr>"

declare initial_app_def [code_unfold]

definition onCanvasState :: "'d operation list \<times> int \<Rightarrow> 'd app \<Rightarrow> 'd app" where
  "onCanvasState st a = a\<lparr>operationHistory := map Obj (fst st), app_currentIndex := snd st\<rparr>"

definition onStrokeComplete :: "'d operation js_result \<Rightarrow> 'd app \<Rightarrow> 'd app" where
  "onStrokeComplete operation a =
     a\<lparr>operationHistory := operationHistory a @ [operation],
       app_currentIndex := app_currentIndex a + 1\<rparr>"

definition onUndo :: "'d app \<Rightarrow> 'd app" where
  "onUndo a =
     (if app_currentIndex a \<ge> 0 then a\<lparr>app_currentIndex := app_currentIndex a - 1\<rparr> else a)"

definition onRedo :: "'d app \<Rightarrow> 'd app" where
  "onRedo a =
     (if app_currentIndex a < int (length (operationHistory a)) - 1
      then a\<lparr>app_currentIndex := app_currentIndex a + 1\<rparr> else a)"

definition onClearCanvas :: "'d app \<Rightarrow> 'd app" where
  "onClearCanvas a = a\<lparr>operationHistory := [], app_currentIndex := - 1\<rparr>"

text \<open>
  The slice the client redraws from:
  \<^verbatim>\<open>app.operationHistory.slice(0, app.currentIndex + 1)\<close>.
\<close>

definition activeOps :: "'d app \<Rightarrow> 'd operation js_result list" where
  "activeOps a = js_slice0 (operationHistory a) (app_currentIndex a + 1)"

section \<open>The server's handlers on one room's history\<close>

text \<open>
  The events the server sends to the members of a room, and the bodies of the
  \<^verbatim>\<open>stroke-complete\<close>, \<^verbatim>\<open>undo\<close>, \<^verbatim>\<open>redo\<close> and \<^verbatim>\<open>clear-canvas\<close> handlers once the room and
  the user of the socket have been looked up. Each returns the events it emits and the
  new history. \<^verbatim>\<open>undo\<close> and \<^verbatim>\<open>redo\<close> emit only when the history returned a truthy value.
\<close>

datatype 'd broadcast =
    StrokeCompleteEv "'d operation js_result"
  | UndoEv "'d operation js_result" string
  | RedoEv "'d operation js_result" string
  | ClearCanvasEv string

datatype 'd request =
    StrokeCompleteReq string string string 'd string nat
  | UndoReq string
  | RedoReq string
  | ClearCanvasReq string

fun handle :: "'d request \<Rightarrow> 'd DrawingState \<Rightarrow> 'd broadcast list \<times> 'd DrawingState" where
  "handle (StrokeCompleteReq socketId uname ucolor payload opid now) s =
     (let (operation, s') =
            addOperation \<lparr>op_type = ''stroke'', op_data = payload, userId = socketId,
                          userName = uname, userColor = ucolor\<rparr> opid now s
      in ([StrokeCompleteEv operation], s'))"
| "handle (UndoReq socketId) s =
     (let (operation, s') = undo s
      in (if truthy operation then [UndoEv operation socketId] else [], s'))"
| "handle (RedoReq socketId) s =
     (let (operation, s') = redo s
      in (if truthy operation then [RedoEv operation socketId] else [], s'))"
| "handle (ClearCanvasReq socketId) s = ([ClearCanvasEv socketId], clear s)"

text \<open>The server handles requests one at a time; the events go out in that order.\<close>

fun serve :: "'d request list \<Rightarrow> 'd DrawingState \<Rightarrow> 'd broadcast list \<times> 'd DrawingState" where
  "serve [] s = ([], s)"
| "serve (r # rs) s =
     (let (out1, s1) = handle r s; (out2, s2) = serve rs s1 in (out1 @ out2, s2))"

text \<open>A client that is not the sender applies each event with the matching handler.\<close>

fun receive :: "'d broadcast \<Rightarrow> 'd app \<Rightarrow> 'd app" where
  "receive (StrokeCompleteEv operation) a = onStrokeComplete operation a"
| "receive (UndoEv _ _) a = onUndo a"
| "receive (RedoEv _ _) a = onRedo a"
| "receive (ClearCanvasEv _) a = onClearCanvas a"

definition replay :: "'d broadcast list \<Rightarrow> 'd app \<Rightarrow> 'd app" where
  "replay evs a = foldl (\<lambda>a ev. receive ev a) a evs"

section \<open>RoomManager\<close>

text \<open>
  A JavaScript \<^verbatim>\<open>Map\<close> is an association list in insertion order with distinct keys:
  \<^verbatim>\<open>get\<close> is \<open>map_of\<close>, \<^verbatim>\<open>set\<close> is \<open>AList.update\<close> (an existing key keeps its place, a new
  one goes last), \<^verbatim>\<open>delete\<close> is \<open>AList.delete\<close>, \<^verbatim>\<open>size\<close> is \<open>length\<close> and \<^verbatim>\<open>values()\<close> is
  \<open>map snd\<close>.
\<close>

record user =
  user_id :: string
  user_name :: string
  color :: "string js_result"
  joinedAt :: nat

record 'd room =
  room_id :: string
  state :: "'d DrawingState"
  users :: "(string \<times> user) list"
  createdAt :: nat

record 'd RoomManager =
  rooms :: "(string \<times> 'd room) list"
  userRooms :: "(string \<times> string) list"
  userColors :: "string list"

definition palette :: "string list" where
  "palette =
     [''#FF6B6B'', ''#4ECDC4'', ''#45B7D1'', ''#FFA07A'',
      ''#98D8C8'', ''#F7DC6F'', ''#BB8FCE'', ''#85C1E2'',
      ''#F8B739'', ''#52B788'', ''#FF85A1'', ''#5DADE2'']"

definition new_RoomManager :: "'d RoomManager" where
  "new_RoomManager = \<lparr>rooms = [], userRooms = [], userColors = palette\<rparr>"

declare new_RoomManager_def [code_unfold]

text \<open>
  The decimal digits of a number, for the default name \<^verbatim>\<open>User n\<close>. \<open>digit_char\<close> is only
  applied to numbers below 10.
\<close>

definition digit_char :: "nat \<Rightarrow> char" where
  "digit_char k = ''0123456789'' ! k"

fun string_of_nat :: "nat \<Rightarrow> string" where
  "string_of_nat n =
     (if 10 \<le> n then string_of_nat (n div 10) @ [digit_char (n mod 10)] else [digit_char n])"

declare string_of_nat.simps [simp del]

text \<open>
  \<^verbatim>\<open>getOrCreateRoom\<close> returns the room and the manager, which holds a new room when the
  id was not there. \<open>now\<close> is the reading of the clock.
\<close>

definition getOrCreateRoom ::
  "string \<Rightarrow> nat \<Rightarrow> 'd RoomManager \<Rightarrow> 'd room \<times> 'd RoomManager" where
  "getOrCreateRoom roomId now m =
     (case map_of (rooms m) roomId of
        Some r \<Rightarrow> (r, m)
      | None \<Rightarrow>
          (let r = \<lparr>room_id = roomId, state = new_DrawingState, users = [], createdAt = now\<rparr>
           in (r, m\<lparr>rooms := AList.update roomId r (rooms m)\<rparr>)))"

text \<open>
  \<^verbatim>\<open>addUserToRoom\<close>. The argument \<open>uname\<close> is \<^verbatim>\<open>userData.name\<close>, \<open>None\<close> when it is absent;
  an absent or empty name is falsy and gives the default. The colour index is the
  number of users now in the room modulo the length of the palette; with an empty
  palette the index is \<^verbatim>\<open>NaN\<close> and the read \<^verbatim>\<open>undefined\<close>.
\<close>

definition addUserToRoom ::
  "string \<Rightarrow> string \<Rightarrow> string option \<Rightarrow> nat \<Rightarrow> 'd RoomManager \<Rightarrow> user \<times> 'd RoomManager" where
  "addUserToRoom roomId socketId uname now m =
     (let (r, m1) = getOrCreateRoom roomId now m;
          colorIndex = length (users r) mod length (userColors m1);
          default_name = ''User '' @ string_of_nat (length (users r) + 1);
          u = \<lparr>user_id = socketId,
               user_name = (case uname of
                              None \<Rightarrow> default_name
                            | Some n \<Rightarrow> if n = [] then default_name else n),
               color = (if userColors m1 = [] then Undefined
                        else js_index (userColors m1) (int colorIndex)),
               joinedAt = now\<rparr>;
          r' = r\<lparr>users := AList.update socketId u (users r)\<rparr>
      in (u, m1\<lparr>rooms := AList.update roomId r' (rooms m1),
                userRooms := AList.update socketId roomId (userRooms m1)\<rparr>))"

text \<open>
  A timer set by \<^verbatim>\<open>setTimeout\<close>: the room id its callback closes over and the delay in
  milliseconds. \<open>evictionCallback\<close> is the body of the callback; it runs on the manager
  as it is when the timer fires.
\<close>

datatype timeout = Timeout string nat

definition evictionCallback :: "string \<Rightarrow> 'd RoomManager \<Rightarrow> 'd RoomManager" where
  "evictionCallback roomId m =
     (case map_of (rooms m) roomId of
        None \<Rightarrow> m
      | Some currentRoom \<Rightarrow>
          if length (users currentRoom) = 0
          then m\<lparr>rooms := AList.delete roomId (rooms m)\<rparr>
          else m)"

text \<open>
  \<^verbatim>\<open>removeUser\<close> returns the room (or \<^verbatim>\<open>null\<close>), the manager and the timer it has set, if
  any. An empty room id is falsy, like a missing one.
\<close>

definition removeUser ::
  "string \<Rightarrow> 'd RoomManager \<Rightarrow> 'd room js_result \<times> 'd RoomManager \<times> timeout option" where
  "removeUser socketId m =
     (case map_of (userRooms m) socketId of
        None \<Rightarrow> (Null, m, None)
      | Some roomId \<Rightarrow>
          if roomId = [] then (Null, m, None)
          else (case map_of (rooms m) roomId of
                  None \<Rightarrow> (Null, m, None)
                | Some r \<Rightarrow>
                    (let r' = r\<lparr>users := AList.delete socketId (users r)\<rparr>;
                         m' = m\<lparr>rooms := AList.update roomId r' (rooms m),
                                userRooms := AList.delete socketId (userRooms m)\<rparr>
                     in (Obj r', m',
                         if length (users r') = 0
                         then Some (Timeout roomId (5 * 60 * 1000)) else None))))"

definition getRoomBySocketId :: "string \<Rightarrow> 'd RoomManager \<Rightarrow> 'd room js_result" where
  "getRoomBySocketId socketId m =
     (case map_of (userRooms m) socketId of
        None \<Rightarrow> Null
      | Some roomId \<Rightarrow>
          if roomId = [] then Null
          else (case map_of (rooms m) roomId of None \<Rightarrow> Undefined | Some r \<Rightarrow> Obj r))"

definition getUser :: "string \<Rightarrow> 'd RoomManager \<Rightarrow> user js_result" where
  "getUser socketId m =
     (case getRoomBySocketId socketId m of
        Obj r \<Rightarrow> (case map_of (users r) socketId of None \<Rightarrow> Undefined | Some u \<Rightarrow> Obj u)
      | _ \<Rightarrow> Null)"

definition getRoomUsers :: "string \<Rightarrow> 'd RoomManager \<Rightarrow> user list" where
  "getRoomUsers roomId m =
     (case map_of (rooms m) roomId of None \<Rightarrow> [] | Some r \<Rightarrow> map snd (users r))"

text \<open>The entries of the \<^verbatim>\<open>users\<close> map of a room, none when the room does not exist.\<close>

definition room_users :: "string \<Rightarrow> 'd RoomManager \<Rightarrow> (string \<times> user) list" where
  "room_users roomId m = (case map_of (rooms m) roomId of None \<Rightarrow> [] | Some r \<Rightarrow> users r)"

subsection \<open>Sequences of joins and leaves\<close>

text \<open>
  The calls the connection handlers make on the manager, and the firing of a timer.
  \<open>run_events\<close> applies them in order; \<open>join_colors\<close> lists the colours given by the
  joins into one room, in the order of the joins.
\<close>

datatype event = Join string string "string option" nat | Leave string | Fire string

fun apply_event :: "event \<Rightarrow> 'd RoomManager \<Rightarrow> 'd RoomManager" where
  "apply_event (Join roomId socketId uname now) m = snd (addUserToRoom roomId socketId uname now m)"
| "apply_event (Leave socketId) m = fst (snd (removeUser socketId m))"
| "apply_event (Fire roomId) m = evictionCallback roomId m"

definition run_events :: "event list \<Rightarrow> 'd RoomManager \<Rightarrow> 'd RoomManager" where
  "run_events evs m = foldl (\<lambda>m ev. apply_event ev m) m evs"

fun join_colors :: "string \<Rightarrow> event list \<Rightarrow> 'd RoomManager \<Rightarrow> string js_result list" where
  "join_colors rid [] m = []"
| "join_colors rid (Join roomId socketId uname now # evs) m =
     (let (u, m') = addUserToRoom roomId socketId uname now m
      in (if roomId = rid then [color u] else []) @ join_colors rid evs m')"
| "join_colors rid (ev # evs) m = join_colors rid evs (apply_event ev m)"

section \<open>Auxiliary definitions for the statements\<close>

text \<open>
  What \<^verbatim>\<open>addOperation\<close> holds after the push and before the size check, for a cursor in
  range: the entries up to the cursor followed by the stamped operation.
\<close>

definition kept_after_add :: "'d draft \<Rightarrow> string \<Rightarrow> nat \<Rightarrow> 'd DrawingState \<Rightarrow> 'd operation list" where
  "kept_after_add d opid now s =
     take (nat (currentIndex s + 1)) (operations s) @ [stamp d opid now]"

text \<open>Concrete inputs: a draft, three stamped operations and some histories.\<close>

definition sample_draft :: "nat draft" where
  "sample_draft =
     \<lparr>op_type = ''stroke'', op_data = 0, userId = ''a'', userName = ''User 1'',
      userColor = ''#FF6B6B''\<rparr>"

definition op1 :: "nat operation" where "op1 = stamp sample_draft ''op_1'' 1"
definition op2 :: "nat operation" where "op2 = stamp sample_draft ''op_2'' 2"
definition op3 :: "nat operation" where "op3 = stamp sample_draft ''op_3'' 3"

definition one_op :: "nat DrawingState" where
  "one_op = \<lparr>operations = [op1], maxHistorySize = 1000, currentIndex = 0\<rparr>"

definition undo_then_stroke :: "nat request list" where
  "undo_then_stroke =
     [UndoReq ''a'', StrokeCompleteReq ''a'' ''User 1'' ''#FF6B6B'' 0 ''op_3'' 3]"

definition join_leave_join :: "event list" where
  "join_leave_join =
     [Join ''r1'' ''a'' None 1, Join ''r1'' ''b'' None 2, Leave ''a'', Join ''r1'' ''c'' None 3]"

definition thirteen_joins :: "(string \<times> string option \<times> nat) list" where
  "thirteen_joins =
     [(''s01'', None, 1), (''s02'', None, 2), (''s03'', None, 3), (''s04'', None, 4),
      (''s05'', None, 5), (''s06'', None, 6), (''s07'', None, 7), (''s08'', None, 8),
      (''s09'', None, 9), (''s10'', None, 10), (''s11'', None, 11), (''s12'', None, 12),
      (''s13'', None, 13)]"

definition user_a :: user where
  "user_a = \<lparr>user_id = ''a'', user_name = ''User 1'', color = Obj ''#FF6B6B'', joinedAt = 1\<rparr>"

definition room_r1 :: "nat room" where
  "room_r1 =
     \<lparr>room_id = ''r1'', state = new_DrawingState, users = [(''a'', user_a)], createdAt = 1\<rparr>"

definition alone_in_r1 :: "nat RoomManager" where
  "alone_in_r1 =
     \<lparr>rooms = [(''r1'', room_r1)], userRooms = [(''a'', ''r1'')], userColors = palette\<rparr>"

definition two_ops_one_undone :: "nat DrawingState" where
  "two_ops_one_undone = \<lparr>operations = [op1, op2], maxHistorySize = 1000, currentIndex = 0\<rparr>"

definition one_op_undone :: "nat DrawingState" where
  "one_op_undone = \<lparr>operations = [op1], maxHistorySize = 1000, currentIndex = - 1\<rparr>"

definition saturated :: "nat DrawingState" where
  "saturated = \<lparr>operations = replicate 1000 op1, maxHistorySize = 1000, currentIndex = 999\<rparr>"

section \<open>Properties of DrawingState\<close>

lemma js_slice0_prefix:
  "0 \<le> e \<Longrightarrow> e \<le> int (length xs) \<Longrightarrow> js_slice0 xs e = take (nat e) xs"
  by (simp add: js_slice0_def Let_def min_def)

lemma length_js_slice0:
  "0 \<le> e \<Longrightarrow> e \<le> int (length xs) \<Longrightarrow> int (length (js_slice0 xs e)) = e"
  by (simp add: js_slice0_prefix)

lemma length_js_shift: "xs \<noteq> [] \<Longrightarrow> int (length (js_shift xs)) = int (length xs) - 1"
  by (cases xs) (simp_all add: js_shift_def)

lemma addOperation_cursor_in_range:
  "cursor_in_range s \<Longrightarrow> cursor_in_range (snd (addOperation d opid now s))"
  by (auto simp: cursor_in_range_def addOperation_def Let_def length_js_slice0 length_js_shift)

lemma undo_cursor_in_range: "cursor_in_range s \<Longrightarrow> cursor_in_range (snd (undo s))"
  by (auto simp: cursor_in_range_def undo_def)

lemma redo_cursor_in_range: "cursor_in_range s \<Longrightarrow> cursor_in_range (snd (redo s))"
  by (auto simp: cursor_in_range_def redo_def Let_def)

lemma clear_cursor_in_range: "cursor_in_range (clear s)"
  by (simp add: cursor_in_range_def clear_def)

lemma apply_call_cursor_in_range: "cursor_in_range s \<Longrightarrow> cursor_in_range (apply_call c s)"
  by (cases c)
     (simp_all add: addOperation_cursor_in_range undo_cursor_in_range redo_cursor_in_range
        clear_cursor_in_range)

lemma run_calls_cursor_in_range: "cursor_in_range s \<Longrightarrow> cursor_in_range (run_calls cs s)"
  unfolding run_calls_def
  by (induction cs arbitrary: s) (simp_all add: apply_call_cursor_in_range)

lemma new_DrawingState_cursor_in_range: "cursor_in_range new_DrawingState"
  by (simp add: cursor_in_range_def new_DrawingState_def)

text \<open>
  C1. Whatever sequence of \<^verbatim>\<open>addOperation\<close>, \<^verbatim>\<open>undo\<close>, \<^verbatim>\<open>redo\<close> and \<^verbatim>\<open>clear\<close> calls is made
  on a freshly constructed history, the cursor stays between \<open>-1\<close> and the last index.
\<close>

theorem cursor_invariant_reachable:
  "- 1 \<le> currentIndex (run_calls cs new_DrawingState) \<and>
   currentIndex (run_calls cs new_DrawingState)
     \<le> int (length (operations (run_calls cs new_DrawingState))) - 1"
  using run_calls_cursor_in_range [OF new_DrawingState_cursor_in_range, of cs]
  by (simp add: cursor_in_range_def)

lemma addOperation_within_capacity:
  "cursor_in_range s \<Longrightarrow> within_capacity s \<Longrightarrow> within_capacity (snd (addOperation d opid now s))"
  by (auto simp: cursor_in_range_def within_capacity_def addOperation_def Let_def
        length_js_slice0 length_js_shift)

lemma apply_call_within_capacity:
  "cursor_in_range s \<Longrightarrow> within_capacity s \<Longrightarrow> within_capacity (apply_call c s)"
  by (cases c)
     (simp_all add: addOperation_within_capacity, simp_all add: within_capacity_def undo_def redo_def clear_def Let_def)

lemma run_calls_within_capacity:
  "cursor_in_range s \<Longrightarrow> within_capacity s \<Longrightarrow> within_capacity (run_calls cs s)"
  unfolding run_calls_def
  by (induction cs arbitrary: s) (simp_all add: apply_call_cursor_in_range apply_call_within_capacity)

lemma new_DrawingState_within_capacity: "within_capacity new_DrawingState"
  by (simp add: within_capacity_def new_DrawingState_def)


lemma js_shift_tl: "js_shift xs = tl xs"
  by (cases xs) (simp_all add: js_shift_def)

lemma length_kept_after_add:
  "cursor_in_range s \<Longrightarrow> int (length (kept_after_add d opid now s)) = currentIndex s + 2"
  by (auto simp: kept_after_add_def cursor_in_range_def)

lemma addOperation_unfold:
  assumes "cursor_in_range s"
  shows "addOperation d opid now s =
     (if int (length (kept_after_add d opid now s)) > maxHistorySize s
      then (js_index (tl (kept_after_add d opid now s)) (currentIndex s),
            s\<lparr>operations := tl (kept_after_add d opid now s), currentIndex := currentIndex s\<rparr>)
      else (js_index (kept_after_add d opid now s) (currentIndex s + 1),
            s\<lparr>operations := kept_after_add d opid now s, currentIndex := currentIndex s + 1\<rparr>))"
proof (cases "currentIndex s < int (length (operations s)) - 1")
  case True
  with assms have "js_slice0 (operations s) (currentIndex s + 1)
      = take (nat (currentIndex s + 1)) (operations s)"
    by (intro js_slice0_prefix) (simp_all add: cursor_in_range_def)
  with True show ?thesis
    by (simp add: addOperation_def Let_def kept_after_add_def js_shift_tl)
next
  case False
  with assms have "currentIndex s = int (length (operations s)) - 1"
    by (simp add: cursor_in_range_def)
  then have "take (nat (currentIndex s + 1)) (operations s) = operations s"
    by simp
  with False show ?thesis
    by (simp add: addOperation_def Let_def kept_after_add_def js_shift_tl)
qed

lemma last_tl_kept:
  assumes "cursor_in_range s" and "1 \<le> maxHistorySize s"
    and "int (length (kept_after_add d opid now s)) > maxHistorySize s"
  shows "tl (kept_after_add d opid now s) \<noteq> []"
    and "last (tl (kept_after_add d opid now s)) = stamp d opid now"
    and "int (length (tl (kept_after_add d opid now s))) = currentIndex s + 1"
proof -
  have len: "int (length (kept_after_add d opid now s)) = currentIndex s + 2"
    by (rule length_kept_after_add [OF assms(1)])
  with assms have "0 \<le> currentIndex s" by simp
  with len show ne: "tl (kept_after_add d opid now s) \<noteq> []"
    by (cases "kept_after_add d opid now s") auto
  have "last (kept_after_add d opid now s) = stamp d opid now"
    by (simp add: kept_after_add_def)
  with ne show "last (tl (kept_after_add d opid now s)) = stamp d opid now"
    by (simp add: last_tl)
  from len ne show "int (length (tl (kept_after_add d opid now s))) = currentIndex s + 1"
    by (cases "kept_after_add d opid now s") auto
qed

lemma js_index_last:
  "xs \<noteq> [] \<Longrightarrow> i = int (length xs) - 1 \<Longrightarrow> js_index xs i = Obj (last xs)"
  by (simp add: js_index_def last_conv_nth nat_diff_distrib')


lemma addOperation_result:
  assumes "cursor_in_range s" and "1 \<le> maxHistorySize s"
    and "int (length (operations s)) \<le> maxHistorySize s"
  shows "operations (snd (addOperation d opid now s)) =
           (if int (length (kept_after_add d opid now s)) > maxHistorySize s
            then tl (kept_after_add d opid now s) else kept_after_add d opid now s)"
    and "operations (snd (addOperation d opid now s)) \<noteq> []"
    and "last (operations (snd (addOperation d opid now s))) = stamp d opid now"
    and "currentIndex (snd (addOperation d opid now s))
           = int (length (operations (snd (addOperation d opid now s)))) - 1"
    and "fst (addOperation d opid now s) = Obj (stamp d opid now)"
    and "currentIndex s < int (length (operations s)) - 1 \<Longrightarrow>
           operations (snd (addOperation d opid now s)) = kept_after_add d opid now s"
proof -
  let ?kept = "kept_after_add d opid now s"
  have len: "int (length ?kept) = currentIndex s + 2"
    by (rule length_kept_after_add [OF assms(1)])
  have ne: "?kept \<noteq> []" and lst: "last ?kept = stamp d opid now"
    by (simp_all add: kept_after_add_def)
  have ret: "js_index ?kept (currentIndex s + 1) = Obj (stamp d opid now)"
    using js_index_last [OF ne, of "currentIndex s + 1"] len lst by simp
  have ret': "js_index (tl ?kept) (currentIndex s) = Obj (stamp d opid now)"
    if "int (length ?kept) > maxHistorySize s"
    using js_index_last [OF last_tl_kept(1) [OF assms(1,2) that], of "currentIndex s"]
      last_tl_kept(2,3) [OF assms(1,2) that] by simp
  show "operations (snd (addOperation d opid now s)) =
           (if int (length ?kept) > maxHistorySize s then tl ?kept else ?kept)"
    by (simp add: addOperation_unfold [OF assms(1)])
  show "operations (snd (addOperation d opid now s)) \<noteq> []"
    using ne last_tl_kept(1) [OF assms(1,2)] by (simp add: addOperation_unfold [OF assms(1)])
  show "last (operations (snd (addOperation d opid now s))) = stamp d opid now"
    using lst last_tl_kept(2) [OF assms(1,2)] by (simp add: addOperation_unfold [OF assms(1)])
  show "currentIndex (snd (addOperation d opid now s))
           = int (length (operations (snd (addOperation d opid now s)))) - 1"
    using len last_tl_kept(3) [OF assms(1,2)] by (simp add: addOperation_unfold [OF assms(1)])
  show "fst (addOperation d opid now s) = Obj (stamp d opid now)"
    using ret ret' by (simp add: addOperation_unfold [OF assms(1)])
  show "operations (snd (addOperation d opid now s)) = ?kept"
    if "currentIndex s < int (length (operations s)) - 1"
    using that len assms(3) by (simp add: addOperation_unfold [OF assms(1)])
qed

text \<open>
  C2. On a history whose cursor is in range and which holds no more than its (positive)
  maximum, \<^verbatim>\<open>addOperation\<close> keeps the entries up to the cursor, appends the stamped
  operation (dropping the oldest entry if that exceeds the maximum), leaves the new
  operation last with the cursor on it, and returns it. When the cursor was below the
  tail, the result has \<open>currentIndex + 2\<close> entries: the kept prefix and the new operation.
\<close>

theorem addOperation_truncates_then_appends:
  assumes "cursor_in_range s" and "1 \<le> maxHistorySize s"
    and "int (length (operations s)) \<le> maxHistorySize s"
  shows "operations (snd (addOperation d opid now s)) =
           (if int (length (take (nat (currentIndex s + 1)) (operations s) @ [stamp d opid now]))
                 > maxHistorySize s
            then tl (take (nat (currentIndex s + 1)) (operations s) @ [stamp d opid now])
            else take (nat (currentIndex s + 1)) (operations s) @ [stamp d opid now])
       \<and> operations (snd (addOperation d opid now s)) \<noteq> []
       \<and> last (operations (snd (addOperation d opid now s))) = stamp d opid now
       \<and> currentIndex (snd (addOperation d opid now s))
           = int (length (operations (snd (addOperation d opid now s)))) - 1
       \<and> fst (addOperation d opid now s) = Obj (stamp d opid now)
       \<and> (currentIndex s < int (length (operations s)) - 1 \<longrightarrow>
            int (length (operations (snd (addOperation d opid now s)))) = currentIndex s + 2
          \<and> operations (snd (addOperation d opid now s))
              = take (nat (currentIndex s + 1)) (operations s) @ [stamp d opid now])"
proof -
  note r = addOperation_result [OF assms, of d opid now, unfolded kept_after_add_def]
  have "int (length (operations (snd (addOperation d opid now s)))) = currentIndex s + 2"
    if "currentIndex s < int (length (operations s)) - 1"
    using r(6) [OF that] length_kept_after_add [OF assms(1), of d opid now]
    by (simp add: kept_after_add_def)
  with r show ?thesis by blast
qed


theorem addOperation_truncates_then_appends_witness:
  "cursor_in_range two_ops_one_undone
   \<and> currentIndex two_ops_one_undone < int (length (operations two_ops_one_undone)) - 1
   \<and> operations (snd (addOperation sample_draft ''op_3'' 3 two_ops_one_undone)) = [op1, op3]
   \<and> currentIndex (snd (addOperation sample_draft ''op_3'' 3 two_ops_one_undone)) = 1
   \<and> fst (addOperation sample_draft ''op_3'' 3 two_ops_one_undone) = Obj op3"
proof -
  have h1: "cursor_in_range two_ops_one_undone"
    by (simp add: cursor_in_range_def two_ops_one_undone_def)
  have h2: "1 \<le> maxHistorySize two_ops_one_undone"
    by (simp add: two_ops_one_undone_def)
  have h3: "int (length (operations two_ops_one_undone)) \<le> maxHistorySize two_ops_one_undone"
    by (simp add: two_ops_one_undone_def)
  have h4: "currentIndex two_ops_one_undone < int (length (operations two_ops_one_undone)) - 1"
    by (simp add: two_ops_one_undone_def)
  show ?thesis
    using h1 h4 addOperation_truncates_then_appends [OF h1 h2 h3, of sample_draft "''op_3''" 3]
    by (simp add: two_ops_one_undone_def op3_def)
qed

lemma run_calls_length_le:
  "within_capacity (run_calls cs (new_DrawingState :: 'd DrawingState))"
  by (rule run_calls_within_capacity
        [OF new_DrawingState_cursor_in_range new_DrawingState_within_capacity])

text \<open>
  C3. A history reached from a fresh one never holds more than 1000 entries. When it
  holds 1000 entries with the cursor on the last, \<^verbatim>\<open>addOperation\<close> drops the entry at
  index 0 and appends the new one: the length stays 1000 and the cursor, advanced and
  then decremented, is again 999, on the new operation.
\<close>

theorem capacity_bound:
  "length (operations (run_calls cs new_DrawingState)) \<le> 1000
   \<and> (maxHistorySize s = 1000 \<and> length (operations s) = 1000 \<and> currentIndex s = 999 \<longrightarrow>
        operations (snd (addOperation d opid now s)) = tl (operations s) @ [stamp d opid now]
      \<and> length (operations (snd (addOperation d opid now s))) = 1000
      \<and> currentIndex (snd (addOperation d opid now s)) = 999
      \<and> fst (addOperation d opid now s) = Obj (stamp d opid now))"
proof -
  have reach: "length (operations (run_calls cs new_DrawingState)) \<le> 1000"
    using run_calls_length_le [of cs] by (simp add: within_capacity_def)
  have sat: "operations (snd (addOperation d opid now s)) = tl (operations s) @ [stamp d opid now]
      \<and> length (operations (snd (addOperation d opid now s))) = 1000
      \<and> currentIndex (snd (addOperation d opid now s)) = 999
      \<and> fst (addOperation d opid now s) = Obj (stamp d opid now)"
    if h: "maxHistorySize s = 1000" "length (operations s) = 1000" "currentIndex s = 999"
  proof -
    from h have inv: "cursor_in_range s" by (simp add: cursor_in_range_def)
    from h have ne: "operations s \<noteq> []" by auto
    from h have kept: "kept_after_add d opid now s = operations s @ [stamp d opid now]"
      by (simp add: kept_after_add_def)
    have ops: "operations (snd (addOperation d opid now s)) = tl (operations s) @ [stamp d opid now]"
      using h ne by (simp add: addOperation_unfold [OF inv] kept)
    have len: "length (tl (operations s) @ [stamp d opid now]) = 1000"
      using h by simp
    have idx: "js_index (tl (operations s) @ [stamp d opid now]) 999 = Obj (stamp d opid now)"
      using h by (simp add: js_index_def nth_append)
    from h ne have ret: "fst (addOperation d opid now s) = Obj (stamp d opid now)"
      using idx by (simp add: addOperation_unfold [OF inv] kept)
    from h have cur: "currentIndex (snd (addOperation d opid now s)) = 999"
      by (simp add: addOperation_unfold [OF inv] kept)
    from ops len ret cur show ?thesis by simp
  qed
  from reach sat show ?thesis by blast
qed


theorem capacity_bound_witness:
  "maxHistorySize saturated = 1000 \<and> length (operations saturated) = 1000
   \<and> currentIndex saturated = 999
   \<and> operations (snd (addOperation sample_draft ''op_3'' 3 saturated)) = replicate 999 op1 @ [op3]
   \<and> length (operations (snd (addOperation sample_draft ''op_3'' 3 saturated))) = 1000
   \<and> currentIndex (snd (addOperation sample_draft ''op_3'' 3 saturated)) = 999"
proof -
  have h: "maxHistorySize saturated = 1000 \<and> length (operations saturated) = 1000
      \<and> currentIndex saturated = 999"
    by (simp add: saturated_def)
  have t: "tl (operations saturated) = replicate 999 op1"
    by (simp add: saturated_def tl_replicate)
  from h capacity_bound [of "[]" saturated sample_draft "''op_3''" 3]
  have r: "operations (snd (addOperation sample_draft ''op_3'' 3 saturated))
          = tl (operations saturated) @ [stamp sample_draft ''op_3'' 3]
      \<and> length (operations (snd (addOperation sample_draft ''op_3'' 3 saturated))) = 1000
      \<and> currentIndex (snd (addOperation sample_draft ''op_3'' 3 saturated)) = 999"
    by blast
  show ?thesis
    unfolding op3_def using h r unfolding t by blast
qed

text \<open>
  C4. \<^verbatim>\<open>undo\<close> with a cursor at or above 0 returns the entry under the cursor and moves
  the cursor down by one; otherwise it returns \<^verbatim>\<open>null\<close> and changes nothing. \<^verbatim>\<open>redo\<close>
  with a cursor below the last index moves the cursor up by one and returns the entry
  now under it; otherwise it returns \<^verbatim>\<open>null\<close> and changes nothing. With the cursor in
  range the entry read exists, so an operation is returned.
\<close>

theorem undo_redo_behaviour:
  "undo s = (if 0 \<le> currentIndex s
             then (js_index (operations s) (currentIndex s), s\<lparr>currentIndex := currentIndex s - 1\<rparr>)
             else (Null, s))
   \<and> redo s = (if currentIndex s < int (length (operations s)) - 1
               then (js_index (operations s) (currentIndex s + 1),
                     s\<lparr>currentIndex := currentIndex s + 1\<rparr>)
               else (Null, s))
   \<and> (cursor_in_range s \<and> 0 \<le> currentIndex s \<longrightarrow>
        fst (undo s) = Obj (operations s ! nat (currentIndex s)))
   \<and> (cursor_in_range s \<and> currentIndex s < int (length (operations s)) - 1 \<longrightarrow>
        fst (redo s) = Obj (operations s ! nat (currentIndex s + 1)))"
  by (simp add: undo_def redo_def Let_def js_index_def cursor_in_range_def)

theorem undo_redo_behaviour_witness:
  "cursor_in_range two_ops_one_undone \<and> 0 \<le> currentIndex two_ops_one_undone
   \<and> currentIndex two_ops_one_undone < int (length (operations two_ops_one_undone)) - 1
   \<and> undo two_ops_one_undone = (Obj op1, two_ops_one_undone\<lparr>currentIndex := - 1\<rparr>)
   \<and> redo two_ops_one_undone = (Obj op2, two_ops_one_undone\<lparr>currentIndex := 1\<rparr>)
   \<and> undo one_op_undone = (Null, one_op_undone)
   \<and> redo (two_ops_one_undone\<lparr>currentIndex := 1\<rparr>) = (Null, two_ops_one_undone\<lparr>currentIndex := 1\<rparr>)"
proof -
  have h: "cursor_in_range two_ops_one_undone \<and> 0 \<le> currentIndex two_ops_one_undone
      \<and> currentIndex two_ops_one_undone < int (length (operations two_ops_one_undone)) - 1"
    by (simp add: cursor_in_range_def two_ops_one_undone_def)
  show ?thesis
    using h undo_redo_behaviour [of two_ops_one_undone] undo_redo_behaviour [of one_op_undone]
      undo_redo_behaviour [of "two_ops_one_undone\<lparr>currentIndex := 1\<rparr>"]
    by (simp add: two_ops_one_undone_def one_op_undone_def js_index_def)
qed

text \<open>
  C5, as stated, fails: after one \<^verbatim>\<open>addOperation\<close> and one \<^verbatim>\<open>undo\<close> the cursor is \<open>-1\<close> over
  a history of one entry; a further \<^verbatim>\<open>undo\<close> does nothing and the \<^verbatim>\<open>redo\<close> after it moves
  the cursor to 0, so neither the cursor nor the active slice is what it was.
\<close>

theorem undo_then_redo_counterexample:
  "currentIndex (snd (redo (snd (undo
       (run_calls [AddOperation sample_draft ''op_1'' 1, Undo] new_DrawingState)))))
     \<noteq> currentIndex (run_calls [AddOperation sample_draft ''op_1'' 1, Undo] new_DrawingState)
   \<and> getActiveOperations (snd (redo (snd (undo
       (run_calls [AddOperation sample_draft ''op_1'' 1, Undo] new_DrawingState)))))
     \<noteq> getActiveOperations
         (run_calls [AddOperation sample_draft ''op_1'' 1, Undo] new_DrawingState)"
  by (simp add: run_calls_def addOperation_def undo_def redo_def new_DrawingState_def Let_def
        js_slice0_def js_shift_def js_index_def getActiveOperations_def)

text \<open>
  C5, amended. With the cursor in range, and either an operation to undo
  (\<open>currentIndex \<ge> 0\<close>) or an empty history, \<^verbatim>\<open>undo\<close> followed by \<^verbatim>\<open>redo\<close> restores the
  cursor and the active slice, indeed the whole state.
\<close>

theorem undo_then_redo_restores:
  assumes "cursor_in_range s" and "0 \<le> currentIndex s \<or> operations s = []"
  shows "currentIndex (snd (redo (snd (undo s)))) = currentIndex s
       \<and> getActiveOperations (snd (redo (snd (undo s)))) = getActiveOperations s
       \<and> snd (redo (snd (undo s))) = s"
  using assms by (auto simp: undo_def redo_def Let_def cursor_in_range_def)

theorem undo_then_redo_restores_witness:
  "cursor_in_range two_ops_one_undone
   \<and> (0 \<le> currentIndex two_ops_one_undone \<or> operations two_ops_one_undone = [])
   \<and> currentIndex (snd (redo (snd (undo two_ops_one_undone)))) = 0
   \<and> getActiveOperations (snd (redo (snd (undo two_ops_one_undone)))) = [op1]"
proof -
  have h1: "cursor_in_range two_ops_one_undone"
    by (simp add: cursor_in_range_def two_ops_one_undone_def)
  have h2: "0 \<le> currentIndex two_ops_one_undone \<or> operations two_ops_one_undone = []"
    by (simp add: two_ops_one_undone_def)
  have a: "getActiveOperations two_ops_one_undone = [op1]"
    by (simp add: getActiveOperations_def js_slice0_def two_ops_one_undone_def)
  have c: "currentIndex two_ops_one_undone = 0"
    by (simp add: two_ops_one_undone_def)
  show ?thesis
    using h1 h2 a c undo_then_redo_restores [OF h1 h2] by simp
qed

text \<open>
  C8. \<^verbatim>\<open>clear\<close> leaves an empty history with the cursor at \<open>-1\<close>, and clearing twice is
  the same as clearing once.
\<close>

theorem clear_resets_and_is_idempotent:
  "length (operations (clear s)) = 0 \<and> currentIndex (clear s) = - 1 \<and> clear (clear s) = clear s"
  by (simp add: clear_def)



section \<open>The client's replay against the server's history\<close>

text \<open>
  C6 fails on the code. The server's \<^verbatim>\<open>addOperation\<close> drops the undone entries before it
  appends; the client's \<^verbatim>\<open>onStrokeComplete\<close> only pushes. A client that received the
  snapshot of a history holding one operation, then the \<^verbatim>\<open>undo\<close> event and the
  \<^verbatim>\<open>stroke-complete\<close> event of a new stroke, holds the undone operation as its active
  slice, while the server's active slice is the new stroke.
\<close>

theorem client_replay_diverges:
  "activeOps (replay (fst (serve undo_then_stroke one_op))
               (onCanvasState (getState one_op) initial_app)) = [Obj op1]
   \<and> map Obj (getActiveOperations (snd (serve undo_then_stroke one_op))) = [Obj op3]"
  by (simp add: undo_then_stroke_def one_op_def replay_def onCanvasState_def getState_def
        getActiveOperations_def js_slice0_def initial_app_def undo_def addOperation_def
        js_index_def js_shift_def Let_def onUndo_def onStrokeComplete_def activeOps_def
        op3_def sample_draft_def)

section \<open>Properties of RoomManager\<close>

lemma length_alist_update:
  "length (AList.update k v al) = (if k \<in> fst ` set al then length al else Suc (length al))"
  by (induction al) auto

lemma getOrCreateRoom_fst:
  "users (fst (getOrCreateRoom rid now m)) = room_users rid m"
  by (simp add: getOrCreateRoom_def room_users_def Let_def split: option.splits)

lemma getOrCreateRoom_frame:
  "userColors (snd (getOrCreateRoom rid now m)) = userColors m"
  "userRooms (snd (getOrCreateRoom rid now m)) = userRooms m"
  "rid' \<noteq> rid \<Longrightarrow> map_of (rooms (snd (getOrCreateRoom rid now m))) rid' = map_of (rooms m) rid'"
  by (simp_all add: getOrCreateRoom_def Let_def AList.update_conv' split: option.splits)

lemma addUserToRoom_color:
  "color (fst (addUserToRoom rid c n t m)) =
     (if userColors m = [] then Undefined
      else Obj (userColors m ! (length (room_users rid m) mod length (userColors m))))"
  by (simp add: addUserToRoom_def Let_def split_beta getOrCreateRoom_fst getOrCreateRoom_frame
        js_index_def)

lemma addUserToRoom_users:
  "room_users rid (snd (addUserToRoom rid c n t m))
     = AList.update c (fst (addUserToRoom rid c n t m)) (room_users rid m)"
  by (simp add: addUserToRoom_def Let_def split_beta room_users_def AList.update_conv'
        getOrCreateRoom_fst [unfolded room_users_def])

lemma addUserToRoom_other_room:
  "rid' \<noteq> rid \<Longrightarrow>
     map_of (rooms (snd (addUserToRoom rid c n t m))) rid' = map_of (rooms m) rid'"
  by (simp add: addUserToRoom_def Let_def split_beta AList.update_conv' getOrCreateRoom_frame)

lemma addUserToRoom_userRooms:
  "map_of (userRooms (snd (addUserToRoom rid c n t m))) = (map_of (userRooms m))(c \<mapsto> rid)"
  by (simp add: addUserToRoom_def Let_def split_beta AList.update_conv' getOrCreateRoom_frame)

lemma addUserToRoom_userColors:
  "userColors (snd (addUserToRoom rid c n t m)) = userColors m"
  by (simp add: addUserToRoom_def Let_def split_beta getOrCreateRoom_frame)

lemma addUserToRoom_room_exists:
  "map_of (rooms (snd (addUserToRoom rid c n t m))) rid \<noteq> None"
  by (simp add: addUserToRoom_def Let_def split_beta AList.update_conv')

lemma room_users_cong:
  "map_of (rooms m') rid = map_of (rooms m) rid \<Longrightarrow> room_users rid m' = room_users rid m"
  by (simp add: room_users_def)

lemma removeUser_other_room:
  "map_of (userRooms m) c \<noteq> Some rid' \<Longrightarrow>
     map_of (rooms (fst (snd (removeUser c m)))) rid' = map_of (rooms m) rid'"
  by (auto simp: removeUser_def Let_def AList.update_conv' split: option.splits)

lemma removeUser_in_room:
  assumes "map_of (userRooms m) c = Some rid" and "rid \<noteq> []"
    and "map_of (rooms m) rid = Some r"
  shows "removeUser c m =
     (Obj (r\<lparr>users := AList.delete c (users r)\<rparr>),
      m\<lparr>rooms := AList.update rid (r\<lparr>users := AList.delete c (users r)\<rparr>) (rooms m),
        userRooms := AList.delete c (userRooms m)\<rparr>,
      if AList.delete c (users r) = [] then Some (Timeout rid 300000) else None)"
  using assms by (simp add: removeUser_def Let_def)

lemma removeUser_users:
  assumes "map_of (userRooms m) c = Some rid" and "rid \<noteq> []"
    and "map_of (rooms m) rid \<noteq> None"
  shows "room_users rid (fst (snd (removeUser c m))) = AList.delete c (room_users rid m)"
  using assms by (auto simp: removeUser_in_room room_users_def AList.update_conv')


lemma length_palette: "length palette = 12"
  by (simp add: palette_def)

lemma palette_nonempty: "palette \<noteq> []"
  by (simp add: palette_def)

lemma join_colors_cycle:
  assumes "userColors m = palette" and "distinct (map fst js)"
    and "fst ` set js \<inter> fst ` set (room_users rid m) = {}"
  shows "join_colors rid (map (\<lambda>(c, n, t). Join rid c n t) js) m
     = map (\<lambda>k. Obj (palette ! ((length (room_users rid m) + k) mod 12))) [0..<length js]"
  using assms
proof (induction js arbitrary: m)
  case Nil
  then show ?case by simp
next
  case (Cons j js)
  obtain c n t where j: "j = (c, n, t)" by (cases j)
  let ?m' = "snd (addUserToRoom rid c n t m)"
  from Cons.prems j have fresh: "c \<notin> fst ` set (room_users rid m)" by auto
  have colors': "userColors ?m' = palette"
    using Cons.prems(1) by (simp add: addUserToRoom_userColors)
  have len': "length (room_users rid ?m') = Suc (length (room_users rid m))"
    using fresh by (simp add: addUserToRoom_users length_alist_update)
  have keys': "fst ` set (room_users rid ?m') = insert c (fst ` set (room_users rid m))"
    by (simp add: addUserToRoom_users dom_update)
  from Cons.prems j have disj': "fst ` set js \<inter> fst ` set (room_users rid ?m') = {}"
    unfolding keys' by auto
  from Cons.prems have dist': "distinct (map fst js)" by simp
  have IH: "join_colors rid (map (\<lambda>(c, n, t). Join rid c n t) js) ?m'
     = map (\<lambda>k. Obj (palette ! ((Suc (length (room_users rid m)) + k) mod 12))) [0..<length js]"
    using Cons.IH [OF colors' dist' disj'] by (simp add: len')
  have col: "color (fst (addUserToRoom rid c n t m))
     = Obj (palette ! (length (room_users rid m) mod 12))"
    using Cons.prems(1) by (simp add: addUserToRoom_color palette_nonempty length_palette)
  obtain u m' where au: "addUserToRoom rid c n t m = (u, m')"
    by (cases "addUserToRoom rid c n t m")
  from IH col au show ?case
    by (simp add: j map_upt_Suc del: upt_Suc)
qed

text \<open>
  C7, as stated, fails: the colour index is the number of users in the room at the time
  of the join, not the number of joins so far. After \<open>a\<close> and \<open>b\<close> have joined and \<open>a\<close> has
  left, the third joiner \<open>c\<close> finds one user in the room and gets the second colour of
  the palette, the colour \<open>b\<close> still holds, not the third (nor the fourth).
\<close>

theorem color_reuse_counterexample:
  "join_colors ''r1'' join_leave_join (new_RoomManager :: nat RoomManager) ! 2
     = Obj ''#4ECDC4''
   \<and> join_colors ''r1'' join_leave_join (new_RoomManager :: nat RoomManager) ! 1
     = Obj ''#4ECDC4''
   \<and> join_colors ''r1'' join_leave_join (new_RoomManager :: nat RoomManager) ! 2
     \<noteq> Obj (palette ! (2 mod 12))
   \<and> join_colors ''r1'' join_leave_join (new_RoomManager :: nat RoomManager) ! 2
     \<noteq> Obj (palette ! (3 mod 12))"
  by (simp add: join_leave_join_def new_RoomManager_def addUserToRoom_def getOrCreateRoom_def
      removeUser_def Let_def palette_def js_index_def new_DrawingState_def)


text \<open>
  C7, amended. The colour of a joining user is the palette entry at the number of users
  in the room at that moment modulo 12. When connections with distinct ids join a room
  of a fresh manager and nobody leaves, the joins get the palette entries in cyclic
  order, and the 13th gets the colour of the 1st.
\<close>

theorem color_by_presence_size:
  "(userColors m = palette \<longrightarrow>
      color (fst (addUserToRoom rid c n t m))
        = Obj (palette ! (length (room_users rid m) mod 12)))
   \<and> (distinct (map fst js) \<longrightarrow>
        join_colors rid (map (\<lambda>(c, n, t). Join rid c n t) js) new_RoomManager
          = map (\<lambda>k. Obj (palette ! (k mod 12))) [0..<length js])
   \<and> (distinct (map fst js) \<and> 13 \<le> length js \<longrightarrow>
        join_colors rid (map (\<lambda>(c, n, t). Join rid c n t) js) new_RoomManager ! 12
          = join_colors rid (map (\<lambda>(c, n, t). Join rid c n t) js) new_RoomManager ! 0)"
proof -
  have a: "color (fst (addUserToRoom rid c n t m))
        = Obj (palette ! (length (room_users rid m) mod 12))" if "userColors m = palette"
    using that by (simp add: addUserToRoom_color palette_nonempty length_palette)
  have b: "join_colors rid (map (\<lambda>(c, n, t). Join rid c n t) js) new_RoomManager
          = map (\<lambda>k. Obj (palette ! (k mod 12))) [0..<length js]" if "distinct (map fst js)"
    using join_colors_cycle [of new_RoomManager js rid] that
    by (simp add: new_RoomManager_def room_users_def)
  have c: "join_colors rid (map (\<lambda>(c, n, t). Join rid c n t) js) new_RoomManager ! 12
          = join_colors rid (map (\<lambda>(c, n, t). Join rid c n t) js) new_RoomManager ! 0"
    if "distinct (map fst js)" and "13 \<le> length js"
  proof -
    from that(2) have "12 < length js - 0" and "0 < length js - 0" by auto
    then show ?thesis
      by (simp only: b [OF that(1)] nth_map_upt) simp
  qed
  from a b c show ?thesis by blast
qed

theorem color_by_presence_size_witness:
  "userColors alone_in_r1 = palette
   \<and> distinct (map fst thirteen_joins) \<and> 13 \<le> length thirteen_joins
   \<and> color (fst (addUserToRoom ''r1'' ''b'' None 2 alone_in_r1)) = Obj ''#4ECDC4''
   \<and> join_colors ''r1'' (map (\<lambda>(c, n, t). Join ''r1'' c n t) thirteen_joins)
        (new_RoomManager :: nat RoomManager) ! 12
       = join_colors ''r1'' (map (\<lambda>(c, n, t). Join ''r1'' c n t) thirteen_joins)
           (new_RoomManager :: nat RoomManager) ! 0"
proof -
  have h1: "userColors alone_in_r1 = palette"
    by (simp add: alone_in_r1_def)
  have h2: "distinct (map fst thirteen_joins)"
    by (simp add: thirteen_joins_def)
  have h3: "13 \<le> length thirteen_joins"
    by (simp add: thirteen_joins_def)
  have sz: "length (room_users ''r1'' alone_in_r1) = 1"
    by (simp add: room_users_def alone_in_r1_def room_r1_def)
  have p1: "palette ! (1 mod 12) = ''#4ECDC4''"
    by (simp add: palette_def)
  note inst = color_by_presence_size [of alone_in_r1 "''r1''" "''b''" None 2 thirteen_joins]
  from inst h1 have "color (fst (addUserToRoom ''r1'' ''b'' None 2 alone_in_r1))
      = Obj (palette ! (length (room_users ''r1'' alone_in_r1) mod 12))"
    by blast
  then have c1: "color (fst (addUserToRoom ''r1'' ''b'' None 2 alone_in_r1)) = Obj ''#4ECDC4''"
    using sz p1 by simp
  from inst h2 h3 have c2:
    "join_colors ''r1'' (map (\<lambda>(c, n, t). Join ''r1'' c n t) thirteen_joins)
        (new_RoomManager :: nat RoomManager) ! 12
       = join_colors ''r1'' (map (\<lambda>(c, n, t). Join ''r1'' c n t) thirteen_joins)
           (new_RoomManager :: nat RoomManager) ! 0"
    by blast
  from h1 h2 h3 c1 c2 show ?thesis by blast
qed

lemma evictionCallback_nonempty: "room_users rid m \<noteq> [] \<Longrightarrow> evictionCallback rid m = m"
  by (simp add: evictionCallback_def room_users_def split: option.splits)

lemma evictionCallback_gone:
  "(map_of (rooms (evictionCallback rid m)) rid = None) = (room_users rid m = [])"
  by (simp add: evictionCallback_def room_users_def AList.delete_conv' split: option.splits)

lemma removeUser_timer:
  assumes "snd (snd (removeUser c m)) = Some tm"
  shows "\<exists>rid. tm = Timeout rid (5 * 60 * 1000) \<and> map_of (userRooms m) c = Some rid
           \<and> room_users rid (fst (snd (removeUser c m))) = []"
  using assms
  by (auto simp: removeUser_def Let_def room_users_def AList.update_conv'
        split: option.splits if_splits)

text \<open>
  C9. \<^verbatim>\<open>removeUser\<close> sets a timer only for the room it has just emptied, with a delay of
  five minutes. When the timer fires, its callback looks the room up again: a room that
  has users then is left as it is, with the whole manager unchanged, and the room is
  gone after the callback exactly when it had no users (or did not exist) at that
  moment. In particular, when the last user leaves and another joins before the timer
  fires, the room is still there after the callback with that user in it; with no join
  the callback deletes the room.
\<close>

theorem eviction_rechecked_at_fire_time:
  "(snd (snd (removeUser c m)) = Some tm \<longrightarrow>
      (\<exists>rid. tm = Timeout rid (5 * 60 * 1000) \<and> map_of (userRooms m) c = Some rid
             \<and> room_users rid (fst (snd (removeUser c m))) = []))
   \<and> (room_users rid m' \<noteq> [] \<longrightarrow> evictionCallback rid m' = m')
   \<and> ((map_of (rooms (evictionCallback rid m')) rid = None) = (room_users rid m' = []))
   \<and> (map_of (userRooms m) c = Some rid \<and> rid \<noteq> [] \<and> map_of (rooms m) rid = Some r
        \<and> AList.delete c (users r) = [] \<longrightarrow>
        snd (snd (removeUser c m)) = Some (Timeout rid (5 * 60 * 1000))
      \<and> evictionCallback rid (snd (addUserToRoom rid u n t (fst (snd (removeUser c m)))))
          = snd (addUserToRoom rid u n t (fst (snd (removeUser c m))))
      \<and> map fst (room_users rid
           (evictionCallback rid (snd (addUserToRoom rid u n t (fst (snd (removeUser c m)))))))
          = [u]
      \<and> map_of (rooms (evictionCallback rid (fst (snd (removeUser c m))))) rid = None)"
proof -
  have scen: "snd (snd (removeUser c m)) = Some (Timeout rid (5 * 60 * 1000))
      \<and> evictionCallback rid (snd (addUserToRoom rid u n t (fst (snd (removeUser c m)))))
          = snd (addUserToRoom rid u n t (fst (snd (removeUser c m))))
      \<and> map fst (room_users rid
           (evictionCallback rid (snd (addUserToRoom rid u n t (fst (snd (removeUser c m)))))))
          = [u]
      \<and> map_of (rooms (evictionCallback rid (fst (snd (removeUser c m))))) rid = None"
    if h: "map_of (userRooms m) c = Some rid" "rid \<noteq> []" "map_of (rooms m) rid = Some r"
      "AList.delete c (users r) = []"
  proof -
    let ?m1 = "fst (snd (removeUser c m))"
    let ?m2 = "snd (addUserToRoom rid u n t ?m1)"
    have timer: "snd (snd (removeUser c m)) = Some (Timeout rid (5 * 60 * 1000))"
      using h by (simp add: removeUser_in_room)
    have "room_users rid m = users r"
      using h(3) by (simp add: room_users_def)
    moreover have "room_users rid ?m1 = AList.delete c (room_users rid m)"
      using h by (intro removeUser_users) simp_all
    ultimately have empty1: "room_users rid ?m1 = []"
      using h(4) by simp
    have users2: "room_users rid ?m2 = [(u, fst (addUserToRoom rid u n t ?m1))]"
      by (simp add: addUserToRoom_users empty1)
    then have ne: "room_users rid ?m2 \<noteq> []" by simp
    have keep: "evictionCallback rid ?m2 = ?m2"
      by (rule evictionCallback_nonempty [OF ne])
    have gone: "map_of (rooms (evictionCallback rid ?m1)) rid = None"
      by (simp add: evictionCallback_gone empty1)
    from timer keep users2 gone show ?thesis by simp
  qed
  from removeUser_timer [of c m tm] evictionCallback_nonempty [of rid m']
    evictionCallback_gone [of rid m'] scen
  show ?thesis by blast
qed

theorem eviction_rechecked_at_fire_time_witness:
  "snd (snd (removeUser ''a'' alone_in_r1)) = Some (Timeout ''r1'' (5 * 60 * 1000))
   \<and> room_users ''r1''
        (snd (addUserToRoom ''r1'' ''b'' None 2 (fst (snd (removeUser ''a'' alone_in_r1))))) \<noteq> []
   \<and> map_of (userRooms alone_in_r1) ''a'' = Some ''r1'' \<and> ''r1'' \<noteq> []
   \<and> map_of (rooms alone_in_r1) ''r1'' = Some room_r1
   \<and> AList.delete ''a'' (users room_r1) = []
   \<and> map fst (room_users ''r1''
        (evictionCallback ''r1''
          (snd (addUserToRoom ''r1'' ''b'' None 2 (fst (snd (removeUser ''a'' alone_in_r1)))))))
       = [''b'']
   \<and> map_of (rooms (evictionCallback ''r1'' (fst (snd (removeUser ''a'' alone_in_r1))))) ''r1''
       = None"
proof -
  have h1: "snd (snd (removeUser ''a'' alone_in_r1)) = Some (Timeout ''r1'' (5 * 60 * 1000))"
    by (simp add: removeUser_def alone_in_r1_def room_r1_def Let_def)
  have h2: "room_users ''r1''
        (snd (addUserToRoom ''r1'' ''b'' None 2 (fst (snd (removeUser ''a'' alone_in_r1))))) \<noteq> []"
    by (simp add: addUserToRoom_users)
  have h3: "map_of (userRooms alone_in_r1) ''a'' = Some ''r1'' \<and> ''r1'' \<noteq> []
      \<and> map_of (rooms alone_in_r1) ''r1'' = Some room_r1
      \<and> AList.delete ''a'' (users room_r1) = []"
    by (simp add: alone_in_r1_def room_r1_def)
  from h1 h2 h3
    eviction_rechecked_at_fire_time
      [of "''a''" alone_in_r1 "Timeout ''r1'' (5 * 60 * 1000)" "''r1''"
          "snd (addUserToRoom ''r1'' ''b'' None 2 (fst (snd (removeUser ''a'' alone_in_r1))))"
          room_r1 "''b''" None 2]
  show ?thesis by blast
qed

text \<open>
  C10. When a connection that is among the users of room \<open>A\<close> is added to a different
  room \<open>B\<close>, room \<open>A\<close> is untouched: the connection is still among its users and in
  \<^verbatim>\<open>getRoomUsers(A)\<close>, while the reverse index now maps it to \<open>B\<close>. A later \<^verbatim>\<open>removeUser\<close>
  of the connection again leaves the users of \<open>A\<close> as they were, and (for a non-empty
  room id \<open>B\<close>) takes the connection out of \<open>B\<close>.
\<close>

theorem rejoin_elsewhere_leaves_stale_membership:
  assumes "c \<in> fst ` set (room_users A m)" and "A \<noteq> B"
  shows "map_of (rooms (snd (addUserToRoom B c n t m))) A = map_of (rooms m) A
       \<and> c \<in> fst ` set (room_users A (snd (addUserToRoom B c n t m)))
       \<and> getRoomUsers A (snd (addUserToRoom B c n t m)) = getRoomUsers A m
       \<and> map_of (userRooms (snd (addUserToRoom B c n t m))) c = Some B
       \<and> room_users A (fst (snd (removeUser c (snd (addUserToRoom B c n t m)))))
           = room_users A m
       \<and> c \<in> fst ` set (room_users A (fst (snd (removeUser c (snd (addUserToRoom B c n t m))))))
       \<and> (B \<noteq> [] \<longrightarrow>
            c \<notin> fst ` set (room_users B (fst (snd (removeUser c (snd (addUserToRoom B c n t m)))))))"
proof -
  let ?m1 = "snd (addUserToRoom B c n t m)"
  let ?m2 = "fst (snd (removeUser c ?m1))"
  have frame1: "map_of (rooms ?m1) A = map_of (rooms m) A"
    using assms(2) by (simp add: addUserToRoom_other_room)
  then have users1: "room_users A ?m1 = room_users A m"
    by (rule room_users_cong)
  have list1: "getRoomUsers A ?m1 = getRoomUsers A m"
    using frame1 by (simp add: getRoomUsers_def)
  have idx: "map_of (userRooms ?m1) c = Some B"
    by (simp add: addUserToRoom_userRooms)
  with assms(2) have "map_of (userRooms ?m1) c \<noteq> Some A" by simp
  then have "map_of (rooms ?m2) A = map_of (rooms ?m1) A"
    by (rule removeUser_other_room)
  then have users2: "room_users A ?m2 = room_users A m"
    using users1 by (simp add: room_users_def)
  have gone: "c \<notin> fst ` set (room_users B ?m2)" if "B \<noteq> []"
    using removeUser_users [OF idx that addUserToRoom_room_exists]
    by (simp add: delete_notin_dom)
  from frame1 users1 list1 idx users2 gone assms(1) show ?thesis by simp
qed

theorem rejoin_elsewhere_leaves_stale_membership_witness:
  "''a'' \<in> fst ` set (room_users ''r1'' alone_in_r1) \<and> ''r1'' \<noteq> ''r2'' \<and> ''r2'' \<noteq> []
   \<and> ''a'' \<in> fst ` set (room_users ''r1'' (snd (addUserToRoom ''r2'' ''a'' None 2 alone_in_r1)))
   \<and> map_of (userRooms (snd (addUserToRoom ''r2'' ''a'' None 2 alone_in_r1))) ''a'' = Some ''r2''
   \<and> ''a'' \<in> fst ` set (room_users ''r1''
        (fst (snd (removeUser ''a'' (snd (addUserToRoom ''r2'' ''a'' None 2 alone_in_r1))))))
   \<and> ''a'' \<notin> fst ` set (room_users ''r2''
        (fst (snd (removeUser ''a'' (snd (addUserToRoom ''r2'' ''a'' None 2 alone_in_r1))))))"
proof -
  have h1: "''a'' \<in> fst ` set (room_users ''r1'' alone_in_r1)"
    by (simp add: room_users_def alone_in_r1_def room_r1_def)
  have h2: "''r1'' \<noteq> ''r2''" and h3: "''r2'' \<noteq> []"
    by simp_all
  from h1 h2 h3 rejoin_elsewhere_leaves_stale_membership [OF h1 h2, of None 2]
  show ?thesis by blast
qed

section \<open>The sample states are reachable\<close>

text \<open>
  The concrete histories and the concrete manager used above are states the program
  reaches from its constructors.
\<close>

lemma sample_histories_reachable:
  "one_op = run_calls [AddOperation sample_draft ''op_1'' 1] new_DrawingState"
  "one_op_undone = run_calls [AddOperation sample_draft ''op_1'' 1, Undo] new_DrawingState"
  "two_ops_one_undone =
     run_calls [AddOperation sample_draft ''op_1'' 1, AddOperation sample_draft ''op_2'' 2, Undo]
       new_DrawingState"
  by (simp_all add: one_op_def one_op_undone_def two_ops_one_undone_def op1_def op2_def
        run_calls_def new_DrawingState_def addOperation_def undo_def Let_def js_index_def
        js_slice0_def js_shift_def)

lemma repeated_add:
  "n \<le> 1000 \<Longrightarrow>
     run_calls (replicate n (AddOperation d opid now)) new_DrawingState
       = \<lparr>operations = replicate n (stamp d opid now), maxHistorySize = 1000,
          currentIndex = int n - 1\<rparr>"
proof (induction n)
  case 0
  then show ?case by (simp add: run_calls_def new_DrawingState_def)
next
  case (Suc n)
  then have IH: "run_calls (replicate n (AddOperation d opid now)) new_DrawingState
       = \<lparr>operations = replicate n (stamp d opid now), maxHistorySize = 1000,
          currentIndex = int n - 1\<rparr>" by simp
  have "run_calls (replicate (Suc n) (AddOperation d opid now)) new_DrawingState
      = snd (addOperation d opid now
               (run_calls (replicate n (AddOperation d opid now)) new_DrawingState))"
  proof -
    have "replicate (Suc n) (AddOperation d opid now)
        = replicate n (AddOperation d opid now) @ [AddOperation d opid now]"
      by (simp add: replicate_append_same)
    then show ?thesis
      by (simp add: run_calls_def del: replicate_Suc)
  qed
  also have "\<dots> = \<lparr>operations = replicate (Suc n) (stamp d opid now), maxHistorySize = 1000,
          currentIndex = int (Suc n) - 1\<rparr>"
    using Suc.prems
    by (simp add: IH addOperation_def Let_def replicate_append_same)
  finally show ?case .
qed

lemma saturated_reachable:
  "saturated = run_calls (replicate 1000 (AddOperation sample_draft ''op_1'' 1)) new_DrawingState"
  by (simp add: repeated_add saturated_def op1_def)

lemma alone_in_r1_reachable:
  "alone_in_r1 = run_events [Join ''r1'' ''a'' None 1] new_RoomManager"
  by (simp add: alone_in_r1_def room_r1_def user_a_def run_events_def new_RoomManager_def
        addUserToRoom_def getOrCreateRoom_def Let_def js_index_def palette_def
        string_of_nat.simps digit_char_def)

end
